theory Spec2Isabelle
  imports Main "HOL-Library.Sublist"
begin

section \<open>Values of the JavaScript runtime\<close>

text \<open>
  Strings are character lists; a character outside ASCII stands as the bytes of its UTF-8
  encoding, which keeps equality, concatenation, \<open>startsWith\<close> and \<open>includes\<close> as they
  are on the strings. A thrown value is an \<open>Error\<close> object with a name and a
  message; \<open>String_of_error\<close> is \<open>String(error)\<close>, that is \<open>Error.prototype.toString\<close>.
  Numbers are integers: the clock readings of \<open>Date.now()\<close> and the lifetimes returned
  by a grant are whole numbers of milliseconds and seconds.
\<close>

datatype js_error = JsError (err_name: string) (err_message: string)

definition String_of_error :: "js_error \<Rightarrow> string" where
  "String_of_error e =
     (if err_name e = [] then err_message e
      else if err_message e = [] then err_name e
      else err_name e @ '': '' @ err_message e)"

text \<open>Truthiness of an environment variable: defined and not the empty string.\<close>

definition truthy :: "string option \<Rightarrow> bool" where
  "truthy v = (case v of None \<Rightarrow> False | Some s \<Rightarrow> s \<noteq> [])"

text \<open>\<open>s.startsWith(p)\<close> and \<open>s.includes(t)\<close>.\<close>

definition js_startsWith :: "string \<Rightarrow> string \<Rightarrow> bool" where
  "js_startsWith s p = prefix p s"

definition js_includes :: "string \<Rightarrow> string \<Rightarrow> bool" where
  "js_includes s t = sublist t s"

text \<open>\<open>xs.join(sep)\<close> on a list of strings.\<close>

fun join :: "string \<Rightarrow> string list \<Rightarrow> string" where
  "join sep [] = []"
| "join sep [x] = x"
| "join sep (x # y # ys) = x @ sep @ join sep (y # ys)"

text \<open>The double-quote character, as a string.\<close>

definition quote :: string where
  "quote = [CHR 0x22]"

section \<open>Objects of the remote service\<close>

record grant_body =
  access_token :: string
  expires_in :: int

text \<open>A track of a search result; \<open>track_artists\<close> holds the artists' names.\<close>

record track_object =
  track_id :: string
  track_name :: string
  track_artists :: "string list"
  track_album :: string
  track_uri :: string
  track_duration_ms :: int
  track_popularity :: int
  track_preview_url :: "string option"

record search_body =
  tracks :: "track_object list option"

record playlist_object =
  playlist_id :: string
  playlist_name :: string
  playlist_description :: "string option"
  playlist_tracks_total :: int
  playlist_uri :: string
  playlist_public :: "bool option"
  playlist_owner_display_name :: "string option"
  playlist_owner_id :: string
  playlist_images :: "string list"

record playlist_body =
  body_name :: string

text \<open>
  An entry of a playlist: \<open>item.track\<close> may be null, and a track or episode may lack
  the \<open>artists\<close> and \<open>album\<close> properties.
\<close>

record entry_track =
  et_id :: string
  et_name :: string
  et_artists :: "string list option"
  et_album :: "string option"
  et_duration_ms :: int
  et_uri :: string

record playlist_entry =
  added_at :: string
  entry_track :: "entry_track option"

record playlist_tracks_body =
  total :: int
  entries :: "playlist_entry list"

section \<open>Text results\<close>

text \<open>The objects that the operations pass to \<open>JSON.stringify\<close>.\<close>

record track_summary =
  ts_id :: string
  ts_name :: string
  ts_artist :: string
  ts_album :: string
  ts_uri :: string
  ts_duration_ms :: int
  ts_popularity :: int
  ts_preview_url :: "string option"

record playlist_summary =
  ps_id :: string
  ps_name :: string
  ps_description :: "string option"
  ps_tracks_total :: int
  ps_uri :: string
  ps_public :: "bool option"
  ps_owner :: string
  ps_image :: "string option"

datatype entry_summary =
    Unknown_entry int string string
  | Track_entry int string string string string int string string

record playlist_tracks_summary =
  pts_playlist_name :: string
  pts_total_tracks :: int
  pts_tracks :: "entry_summary list"

text \<open>
  The \<open>text\<close> of a result is either a plain sentence or \<open>JSON.stringify(v, null, 2)\<close>
  of one of the objects above, kept as the object: \<open>JSON.parse\<close> gives the object
  back, and the rendering of an object or array (it starts with a brace or a bracket) is
  never equal to one of the plain sentences.
\<close>

datatype payload =
    Plain string
  | Json_track track_summary
  | Json_playlists "playlist_summary list"
  | Json_playlist_tracks playlist_tracks_summary

datatype TextContent = Text (text_of: payload)


section \<open>The remote service and the client state\<close>

datatype play_options = Uris "string list" | Context_uri string

text \<open>The requests that the client library sends, one constructor per library call.\<close>

datatype request =
    Req_refreshAccessToken
  | Req_clientCredentialsGrant
  | Req_searchTracks string int
  | Req_play play_options
  | Req_getUserPlaylists int
  | Req_getPlaylist string
  | Req_getPlaylistTracks string int
  | Req_setShuffle bool

text \<open>
  Module state of the client: \<open>tokenExpirationTime\<close> (line 23) and the access token
  held by the \<open>spotifyApi\<close> object (set by \<open>setAccessToken\<close>). The field \<open>requests\<close>
  logs every request sent to the remote service, oldest first.
\<close>

record client_state =
  tokenExpirationTime :: int
  accessToken :: "string option"
  requests :: "request list"

definition initial_state :: client_state where
  "initial_state = \<lparr>tokenExpirationTime = 0, accessToken = None, requests = []\<rparr>"

definition issue :: "request \<Rightarrow> client_state \<Rightarrow> client_state" where
  "issue r st = st\<lparr>requests := requests st @ [r]\<rparr>"

record environment =
  SPOTIFY_REFRESH_TOKEN :: "string option"

text \<open>
  The remote service, one field per library call. Each response may depend on the
  requests sent so far (the first argument); \<open>Inl\<close> is a rejected promise.
\<close>

record remote =
  api_refreshAccessToken :: "request list \<Rightarrow> js_error + grant_body"
  api_clientCredentialsGrant :: "request list \<Rightarrow> js_error + grant_body"
  api_searchTracks :: "request list \<Rightarrow> string \<Rightarrow> int \<Rightarrow> js_error + search_body"
  api_play :: "request list \<Rightarrow> play_options \<Rightarrow> js_error + unit"
  api_getUserPlaylists :: "request list \<Rightarrow> int \<Rightarrow> js_error + playlist_object list"
  api_getPlaylist :: "request list \<Rightarrow> string \<Rightarrow> js_error + playlist_body"
  api_getPlaylistTracks :: "request list \<Rightarrow> string \<Rightarrow> int \<Rightarrow> js_error + playlist_tracks_body"
  api_setShuffle :: "request list \<Rightarrow> bool \<Rightarrow> js_error + unit"

section \<open>ensureAccessToken\<close>

text \<open>Lines 38-53: the inner try/catch around the refresh-token grant.\<close>

definition refreshTokenFlow ::
  "remote \<Rightarrow> int \<Rightarrow> client_state \<Rightarrow> (js_error + unit) \<times> client_state" where
  "refreshTokenFlow rem now st =
     (let st1 = issue Req_refreshAccessToken st in
      case api_refreshAccessToken rem (requests st) of
        Inr refreshData \<Rightarrow>
          (Inr (),
           st1\<lparr>accessToken := Some (access_token refreshData),
               tokenExpirationTime := now + expires_in refreshData * 1000 - 60000\<rparr>)
      | Inl refreshError \<Rightarrow>
          (Inl (JsError ''Error'' ''Failed to refresh access token with refresh token''), st1))"

text \<open>Lines 54-66: the client-credentials grant; a failure propagates to the outer catch.\<close>

definition clientCredentialsFlow ::
  "remote \<Rightarrow> int \<Rightarrow> client_state \<Rightarrow> (js_error + unit) \<times> client_state" where
  "clientCredentialsFlow rem now st =
     (let st1 = issue Req_clientCredentialsGrant st in
      case api_clientCredentialsGrant rem (requests st) of
        Inr data \<Rightarrow>
          (Inr (),
           st1\<lparr>accessToken := Some (access_token data),
               tokenExpirationTime := now + expires_in data * 1000 - 60000\<rparr>)
      | Inl e \<Rightarrow> (Inl e, st1))"

text \<open>Lines 28-74. \<open>now\<close> is the value read from \<open>Date.now()\<close> on line 29.\<close>

definition ensureAccessToken ::
  "remote \<Rightarrow> environment \<Rightarrow> int \<Rightarrow> client_state \<Rightarrow> (js_error + unit) \<times> client_state" where
  "ensureAccessToken rem env now st =
     (if now \<ge> tokenExpirationTime st - 60000 then
        (case (if truthy (SPOTIFY_REFRESH_TOKEN env)
               then refreshTokenFlow rem now st
               else clientCredentialsFlow rem now st) of
           (Inr u, st') \<Rightarrow> (Inr (), st')
         | (Inl error, st') \<Rightarrow> (Inl (JsError ''Error'' ''Failed to authenticate with Spotify''), st'))
      else (Inr (), st))"

section \<open>Operations of the client\<close>

subsection \<open>searchTracks\<close>



subsection \<open>playTrack\<close>

text \<open>Lines 213-215: the URI that playTrack plays.\<close>

definition trackUri :: "string \<Rightarrow> string" where
  "trackUri trackId =
     (if js_startsWith trackId ''spotify:track:'' then trackId else ''spotify:track:'' @ trackId)"

text \<open>Lines 220-254: the catch block of playTrack.\<close>

definition playTrack_catch :: "js_error \<Rightarrow> TextContent list" where
  "playTrack_catch error =
     (let errorMessage = String_of_error error in
      if js_includes errorMessage ''NOT_PREMIUM'' then
        [Text (Plain ''Error: This functionality requires a Spotify Premium account.'')]
      else if js_includes errorMessage ''PERMISSION'' then
        [Text (Plain ''Error: Missing required permissions. Make sure your refresh token has the user-modify-playback-state scope.'')]
      else if js_includes errorMessage ''NO_ACTIVE_DEVICE'' then
        [Text (Plain ''Error: No active Spotify playback device found. Please open Spotify on a device first.'')]
      else [Text (Plain (''Error playing track: '' @ String_of_error error))])"

text \<open>Lines 208-255. A failure of ensureAccessToken is outside the try and propagates.\<close>

definition playTrack ::
  "remote \<Rightarrow> environment \<Rightarrow> int \<Rightarrow> client_state \<Rightarrow> string \<Rightarrow>
     (js_error + TextContent list) \<times> client_state" where
  "playTrack rem env now st trackId =
     (case ensureAccessToken rem env now st of
        (Inl e, st1) \<Rightarrow> (Inl e, st1)
      | (Inr u, st1) \<Rightarrow>
          (let uri = trackUri trackId;
               st2 = issue (Req_play (Uris [uri])) st1 in
           case api_play rem (requests st1) (Uris [uri]) of
             Inr r \<Rightarrow> (Inr [Text (Plain (''Now playing track with URI: '' @ uri))], st2)
           | Inl error \<Rightarrow> (Inr (playTrack_catch error), st2)))"

subsection \<open>getUserPlaylists\<close>



subsection \<open>getPlaylistTracks\<close>

definition entry_summary_of :: "nat \<times> playlist_entry \<Rightarrow> entry_summary" where
  "entry_summary_of p =
     (case p of (index, item) \<Rightarrow>
        (case entry_track item of
           None \<Rightarrow> Unknown_entry (int index + 1) ''Unknown track'' (added_at item)
         | Some track \<Rightarrow>
             Track_entry (int index + 1) (et_id track) (et_name track)
               (case et_artists track of Some names \<Rightarrow> join '', '' names | None \<Rightarrow> ''Unknown'')
               (case et_album track of Some album \<Rightarrow> album | None \<Rightarrow> ''Unknown'')
               (et_duration_ms track) (added_at item) (et_uri track)))"

text \<open>
  Lines 417-488; an omitted limit defaults to 50. Both requests carry \<open>playlistId\<close> as
  the caller gave it.
\<close>

definition getPlaylistTracks ::
  "remote \<Rightarrow> environment \<Rightarrow> int \<Rightarrow> client_state \<Rightarrow> string \<Rightarrow> int option \<Rightarrow>
     (js_error + TextContent list) \<times> client_state" where
  "getPlaylistTracks rem env now st playlistId limit_arg =
     (let limit = (case limit_arg of None \<Rightarrow> 50 | Some l \<Rightarrow> l) in
      case ensureAccessToken rem env now st of
        (Inl e, st1) \<Rightarrow> (Inl e, st1)
      | (Inr u, st1) \<Rightarrow>
          (let st2 = issue (Req_getPlaylist playlistId) st1 in
           case api_getPlaylist rem (requests st1) playlistId of
             Inl error \<Rightarrow>
               (Inr [Text (Plain (''Error getting playlist tracks: '' @ String_of_error error))], st2)
           | Inr playlistResponse \<Rightarrow>
               (let playlistName = body_name playlistResponse;
                    st3 = issue (Req_getPlaylistTracks playlistId limit) st2 in
                case api_getPlaylistTracks rem (requests st2) playlistId limit of
                  Inl error \<Rightarrow>
                    (Inr [Text (Plain (''Error getting playlist tracks: '' @ String_of_error error))], st3)
                | Inr response \<Rightarrow>
                    if length (entries response) > 0
                    then (Inr [Text (Json_playlist_tracks
                                 \<lparr>pts_playlist_name = playlistName,
                                  pts_total_tracks = total response,
                                  pts_tracks = map entry_summary_of (enumerate 0 (entries response))\<rparr>)],
                          st3)
                    else (Inr [Text (Plain (''Playlist '' @ quote @ playlistName @ quote @ '' is empty.''))],
                          st3))))"

subsection \<open>playPlaylist\<close>

text \<open>Lines 510-512: the URI that playPlaylist plays.\<close>

definition playlistUri :: "string \<Rightarrow> string" where
  "playlistUri playlistId =
     (if js_startsWith playlistId ''spotify:playlist:'' then playlistId
      else ''spotify:playlist:'' @ playlistId)"

text \<open>
  Lines 499-525, the try block: the metadata fetch with \<open>playlistId\<close> as given, the
  shuffle request under the guard \<open>shuffle !== undefined\<close> (\<open>shuffle = None\<close> is
  undefined), then the play request on the URI.
\<close>

definition playPlaylist_try ::
  "remote \<Rightarrow> client_state \<Rightarrow> string \<Rightarrow> bool option \<Rightarrow>
     (js_error + TextContent list) \<times> client_state" where
  "playPlaylist_try rem st1 playlistId shuffle =
     (let st2 = issue (Req_getPlaylist playlistId) st1 in
      case api_getPlaylist rem (requests st1) playlistId of
        Inl e \<Rightarrow> (Inl e, st2)
      | Inr playlistResponse \<Rightarrow>
          (let playlistName = body_name playlistResponse in
           case (case shuffle of
                   None \<Rightarrow> (Inr (), st2)
                 | Some b \<Rightarrow> (api_setShuffle rem (requests st2) b, issue (Req_setShuffle b) st2)) of
             (Inl e, st3) \<Rightarrow> (Inl e, st3)
           | (Inr u, st3) \<Rightarrow>
               (let uri = playlistUri playlistId;
                    st4 = issue (Req_play (Context_uri uri)) st3 in
                case api_play rem (requests st3) (Context_uri uri) of
                  Inl e \<Rightarrow> (Inl e, st4)
                | Inr r \<Rightarrow>
                    (Inr [Text (Plain (''Now playing playlist '' @ quote @ playlistName @ quote @ '' ''
                                        @ (if shuffle = Some True then ''on shuffle mode'' else ''in order'')
                                        @ ''.''))],
                     st4))))"

text \<open>Lines 526-569: the catch block of playPlaylist.\<close>

definition playPlaylist_catch :: "js_error \<Rightarrow> TextContent list" where
  "playPlaylist_catch error =
     (let errorMessage = String_of_error error in
      if js_includes errorMessage ''NOT_PREMIUM'' then
        [Text (Plain ''Error: This functionality requires a Spotify Premium account.'')]
      else if js_includes errorMessage ''PERMISSION'' then
        [Text (Plain ''Error: Missing required permissions. Make sure your refresh token has the user-modify-playback-state scope.'')]
      else if js_includes errorMessage ''NO_ACTIVE_DEVICE'' then
        [Text (Plain ''Error: No active Spotify playback device found. Please open Spotify on a device first.'')]
      else [Text (Plain (''Error playing playlist: '' @ String_of_error error))])"

text \<open>
  Lines 493-570. The default parameter \<open>shuffle: boolean = false\<close> replaces an omitted
  argument (\<open>shuffle_arg = None\<close>) by false before the body runs.
\<close>

definition playPlaylist ::
  "remote \<Rightarrow> environment \<Rightarrow> int \<Rightarrow> client_state \<Rightarrow> string \<Rightarrow> bool option \<Rightarrow>
     (js_error + TextContent list) \<times> client_state" where
  "playPlaylist rem env now st playlistId shuffle_arg =
     (let shuffle = (case shuffle_arg of None \<Rightarrow> Some False | Some b \<Rightarrow> Some b) in
      case ensureAccessToken rem env now st of
        (Inl e, st1) \<Rightarrow> (Inl e, st1)
      | (Inr u, st1) \<Rightarrow>
          (case playPlaylist_try rem st1 playlistId shuffle of
             (Inr result, st2) \<Rightarrow> (Inr result, st2)
           | (Inl error, st2) \<Rightarrow> (Inr (playPlaylist_catch error), st2)))"

section \<open>The two-step tools\<close>





section \<open>Notions used in the statements\<close>

text \<open>
  A grant made at \<open>now\<close> with a lifetime of \<open>expires_in\<close> seconds gives a token that the
  service honours until \<open>now + expires_in * 1000\<close>; lines 42-43 and 62 store that instant
  less 60000. So the instant at which the tracked token really expires is
  \<open>tokenExpirationTime + 60000\<close>.
\<close>

definition realExpiry :: "client_state \<Rightarrow> int" where
  "realExpiry st = tokenExpirationTime st + 60000"

text \<open>
  The states in which \<open>tokenExpirationTime\<close> tracks a token: as long as no token is
  stored the variable has its initial value 0.
\<close>

definition tracked :: "client_state \<Rightarrow> bool" where
  "tracked st = (accessToken st = None \<longrightarrow> tokenExpirationTime st = 0)"

text \<open>The requests sent between two states: what the log has gained.\<close>

definition sent :: "client_state \<Rightarrow> client_state \<Rightarrow> request list" where
  "sent st st' = drop (length (requests st)) (requests st')"

text \<open>
  The classification of a remote error following the specification's words: the known
  substrings in their order of precedence, each with its message; the first one that
  the error text contains decides, and an error text that contains none of them gives
  the generic text followed by the raw error.
\<close>

definition known_errors :: "(string \<times> string) list" where
  "known_errors =
     [(''NOT_PREMIUM'', ''Error: This functionality requires a Spotify Premium account.''),
      (''PERMISSION'', ''Error: Missing required permissions. Make sure your refresh token has the user-modify-playback-state scope.''),
      (''NO_ACTIVE_DEVICE'', ''Error: No active Spotify playback device found. Please open Spotify on a device first.'')]"

definition classification_spec :: "string \<Rightarrow> js_error \<Rightarrow> string" where
  "classification_spec generic error =
     (case find (\<lambda>entry. sublist (fst entry) (String_of_error error)) known_errors of
        Some entry \<Rightarrow> snd entry
      | None \<Rightarrow> generic @ String_of_error error)"

section \<open>Fixtures\<close>

definition grant_3600 :: grant_body where
  "grant_3600 = \<lparr>access_token = ''tok'', expires_in = 3600\<rparr>"

definition grant_30 :: grant_body where
  "grant_30 = \<lparr>access_token = ''tok'', expires_in = 30\<rparr>"

definition roadtrip :: playlist_object where
  "roadtrip =
     \<lparr>playlist_id = ''p1'', playlist_name = ''Summer Roadtrip'', playlist_description = None,
      playlist_tracks_total = 3, playlist_uri = ''spotify:playlist:p1'', playlist_public = Some True,
      playlist_owner_display_name = None, playlist_owner_id = ''u'', playlist_images = []\<rparr>"

definition chill :: playlist_object where
  "chill =
     \<lparr>playlist_id = ''p2'', playlist_name = ''Chill'', playlist_description = None,
      playlist_tracks_total = 1, playlist_uri = ''spotify:playlist:p2'', playlist_public = Some True,
      playlist_owner_display_name = None, playlist_owner_id = ''u'', playlist_images = []\<rparr>"

text \<open>A service on which every call succeeds; the user has the two playlists above.\<close>

definition remote_ok :: remote where
  "remote_ok =
     \<lparr>api_refreshAccessToken = (\<lambda>log. Inr grant_3600),
      api_clientCredentialsGrant = (\<lambda>log. Inr grant_3600),
      api_searchTracks = (\<lambda>log query limit. Inr \<lparr>tracks = Some []\<rparr>),
      api_play = (\<lambda>log opts. Inr ()),
      api_getUserPlaylists = (\<lambda>log limit. Inr [roadtrip, chill]),
      api_getPlaylist = (\<lambda>log i. Inr \<lparr>body_name = ''Summer Roadtrip''\<rparr>),
      api_getPlaylistTracks = (\<lambda>log i limit. Inr \<lparr>total = 0, entries = []\<rparr>),
      api_setShuffle = (\<lambda>log b. Inr ())\<rparr>"

definition env_refresh :: environment where
  "env_refresh = \<lparr>SPOTIFY_REFRESH_TOKEN = Some ''r''\<rparr>"

definition env_none :: environment where
  "env_none = \<lparr>SPOTIFY_REFRESH_TOKEN = None\<rparr>"

text \<open>A state whose token is tracked as valid until long after the clock reading 1000000.\<close>

definition fresh_state :: client_state where
  "fresh_state = \<lparr>tokenExpirationTime = 5000000, accessToken = Some ''tok'', requests = []\<rparr>"

text \<open>A service whose grants give a token that lives 30 seconds.\<close>

definition remote_short :: remote where
  "remote_short =
     remote_ok\<lparr>api_refreshAccessToken := (\<lambda>log. Inr grant_30),
               api_clientCredentialsGrant := (\<lambda>log. Inr grant_30)\<rparr>"

text \<open>A service that rejects the refresh-token grant.\<close>

definition remote_refresh_fails :: remote where
  "remote_refresh_fails =
     remote_ok\<lparr>api_refreshAccessToken := (\<lambda>log. Inl (JsError ''WebapiError'' ''invalid_grant''))\<rparr>"

text \<open>A service that rejects every play request with the given error.\<close>

definition remote_play_fails :: "js_error \<Rightarrow> remote" where
  "remote_play_fails e = remote_ok\<lparr>api_play := (\<lambda>log opts. Inl e)\<rparr>"

definition premium_and_device :: js_error where
  "premium_and_device = JsError ''WebapiError'' ''NOT_PREMIUM NO_ACTIVE_DEVICE''"

definition device_only :: js_error where
  "device_only = JsError ''WebapiError'' ''Player command failed: NO_ACTIVE_DEVICE''"

definition permission_and_device :: js_error where
  "permission_and_device = JsError ''WebapiError'' ''NO_ACTIVE_DEVICE (PERMISSION missing)''"

definition timeout_error :: js_error where
  "timeout_error = JsError ''Error'' ''timeout''"


text \<open>A service whose refresh-token grant lives an hour and whose client-credentials grant 30 seconds.\<close>

definition remote_mixed :: remote where
  "remote_mixed = remote_ok\<lparr>api_clientCredentialsGrant := (\<lambda>log. Inr grant_30)\<rparr>"






section \<open>Token lifecycle\<close>

text \<open>
  C1. A call to ensureAccessToken at a time \<open>now < tokenExpirationTime - 60000\<close> returns
  normally, sends no grant request (the request log is unchanged) and leaves the stored
  access token and tokenExpirationTime unchanged: the whole state is returned as it was.
\<close>

theorem ensureAccessToken_no_redundant_refresh:
  assumes "now < tokenExpirationTime st - 60000"
  shows "ensureAccessToken rem env now st = (Inr (), st)"
  using assms by (simp add: ensureAccessToken_def)

theorem ensureAccessToken_no_redundant_refresh_witness:
  "(1000000::int) < tokenExpirationTime fresh_state - 60000 \<and>
   ensureAccessToken remote_ok env_refresh 1000000 fresh_state = (Inr (), fresh_state)"
proof -
  have h: "(1000000::int) < tokenExpirationTime fresh_state - 60000"
    by (simp add: fresh_state_def)
  from ensureAccessToken_no_redundant_refresh [OF h, of remote_ok env_refresh] h
  show ?thesis by simp
qed

text \<open>
  C2. A call to ensureAccessToken at a time \<open>now \<ge> tokenExpirationTime - 60000\<close> sends
  exactly one grant request: the request log grows by the refresh-token request when a
  refresh credential is configured, and by the client-credentials request otherwise (so
  never by the refresh-token request then). When that grant succeeds with a body of
  lifetime \<open>expires_in\<close>, the call returns normally, tokenExpirationTime becomes
  \<open>now + expires_in * 1000 - 60000\<close> and the granted token is stored.
\<close>

theorem ensureAccessToken_refresh_due:
  assumes "now \<ge> tokenExpirationTime st - 60000"
  shows "requests (snd (ensureAccessToken rem env now st)) =
           requests st @ [if truthy (SPOTIFY_REFRESH_TOKEN env)
                          then Req_refreshAccessToken else Req_clientCredentialsGrant]
         \<and> (\<forall>body.
              (if truthy (SPOTIFY_REFRESH_TOKEN env)
               then api_refreshAccessToken rem (requests st)
               else api_clientCredentialsGrant rem (requests st)) = Inr body \<longrightarrow>
              fst (ensureAccessToken rem env now st) = Inr () \<and>
              tokenExpirationTime (snd (ensureAccessToken rem env now st)) =
                now + expires_in body * 1000 - 60000 \<and>
              accessToken (snd (ensureAccessToken rem env now st)) = Some (access_token body))"
  using assms
  by (auto simp: ensureAccessToken_def refreshTokenFlow_def clientCredentialsFlow_def issue_def Let_def
           split: sum.splits)

theorem ensureAccessToken_refresh_due_witness:
  "(1000000::int) \<ge> tokenExpirationTime initial_state - 60000 \<and>
   requests (snd (ensureAccessToken remote_ok env_refresh 1000000 initial_state)) = [Req_refreshAccessToken] \<and>
   requests (snd (ensureAccessToken remote_ok env_none 1000000 initial_state)) = [Req_clientCredentialsGrant] \<and>
   tokenExpirationTime (snd (ensureAccessToken remote_ok env_refresh 1000000 initial_state)) = 4540000"
proof -
  have h: "(1000000::int) \<ge> tokenExpirationTime initial_state - 60000"
    by (simp add: initial_state_def)
  from ensureAccessToken_refresh_due [OF h, of remote_ok env_refresh]
       ensureAccessToken_refresh_due [OF h, of remote_ok env_none] h
  show ?thesis
    by (simp add: remote_ok_def env_refresh_def env_none_def truthy_def initial_state_def grant_3600_def)
qed

text \<open>
  C3. When a refresh credential is configured and the refresh-token grant fails,
  ensureAccessToken throws the authentication error and the only request sent is the
  refresh-token request: no client-credentials grant is attempted. A client-credentials
  request among the requests sent by a call implies that no refresh credential is
  configured.
\<close>

theorem ensureAccessToken_refresh_failure_no_fallback:
  "(now \<ge> tokenExpirationTime st - 60000 \<and> truthy (SPOTIFY_REFRESH_TOKEN env) \<and>
    api_refreshAccessToken rem (requests st) = Inl e \<longrightarrow>
      ensureAccessToken rem env now st =
        (Inl (JsError ''Error'' ''Failed to authenticate with Spotify''), issue Req_refreshAccessToken st))
   \<and> (Req_clientCredentialsGrant \<in>
         set (drop (length (requests st)) (requests (snd (ensureAccessToken rem env now st)))) \<longrightarrow>
       \<not> truthy (SPOTIFY_REFRESH_TOKEN env))"
  by (auto simp: ensureAccessToken_def refreshTokenFlow_def clientCredentialsFlow_def issue_def Let_def
           split: sum.splits if_splits)

theorem ensureAccessToken_refresh_failure_no_fallback_witness:
  "ensureAccessToken remote_refresh_fails env_refresh 1000000 initial_state =
     (Inl (JsError ''Error'' ''Failed to authenticate with Spotify''),
      issue Req_refreshAccessToken initial_state)
   \<and> Req_clientCredentialsGrant \<in>
         set (drop (length (requests initial_state))
               (requests (snd (ensureAccessToken remote_ok env_none 1000000 initial_state))))
   \<and> \<not> truthy (SPOTIFY_REFRESH_TOKEN env_none)"
proof -
  have a: "(1000000::int) \<ge> tokenExpirationTime initial_state - 60000 \<and>
           truthy (SPOTIFY_REFRESH_TOKEN env_refresh) \<and>
           api_refreshAccessToken remote_refresh_fails (requests initial_state) =
             Inl (JsError ''WebapiError'' ''invalid_grant'')"
    by (simp add: initial_state_def env_refresh_def truthy_def remote_refresh_fails_def remote_ok_def)
  have b: "Req_clientCredentialsGrant \<in>
             set (drop (length (requests initial_state))
                   (requests (snd (ensureAccessToken remote_ok env_none 1000000 initial_state))))"
    by (simp add: ensureAccessToken_def clientCredentialsFlow_def issue_def Let_def initial_state_def
          env_none_def truthy_def remote_ok_def)
  from ensureAccessToken_refresh_failure_no_fallback
         [where now = 1000000 and st = initial_state and env = env_refresh
            and rem = remote_refresh_fails and e = "JsError ''WebapiError'' ''invalid_grant''"]
       ensureAccessToken_refresh_failure_no_fallback
         [where now = 1000000 and st = initial_state and env = env_none and rem = remote_ok]
       a b
  show ?thesis by blast
qed

text \<open>
  C4, as stated, fails for a grant whose lifetime is below 60 seconds: from the initial
  state, with a grant of 30 seconds at the clock reading 1000000, ensureAccessToken
  returns normally and the token really expires at 1030000, before 1000000 + 60000.
\<close>

theorem ensureAccessToken_short_lifetime_counterexample:
  "fst (ensureAccessToken remote_short env_none 1000000 initial_state) = Inr () \<and>
   \<not> (1000000 + 60000 \<le> realExpiry (snd (ensureAccessToken remote_short env_none 1000000 initial_state)))"
  by (simp add: ensureAccessToken_def clientCredentialsFlow_def issue_def Let_def initial_state_def
        env_none_def truthy_def remote_short_def remote_ok_def grant_30_def realExpiry_def)

text \<open>
  C4, amended. Whenever ensureAccessToken returns without throwing at a clock reading
  \<open>now \<ge> 0\<close>, from the initial unset state or any other state in which the variable
  tracks the stored token, and the lifetime returned by the grant that the call makes (if
  it makes one) is at least 60 seconds, a token is stored and \<open>now + 60000\<close> does not
  exceed its real expiry; the resulting state is tracked again. After a grant the real
  expiry is \<open>now\<close> plus the lifetime that this grant returned.
\<close>

theorem ensureAccessToken_valid_for_60s:
  assumes "ensureAccessToken rem env now st = (Inr (), st')"
    and "0 \<le> now" and "tracked st"
    and "\<forall>body. now \<ge> tokenExpirationTime st - 60000 \<and>
           (if truthy (SPOTIFY_REFRESH_TOKEN env)
            then api_refreshAccessToken rem (requests st)
            else api_clientCredentialsGrant rem (requests st)) = Inr body \<longrightarrow>
           60 \<le> expires_in body"
  shows "accessToken st' \<noteq> None \<and> now + 60000 \<le> realExpiry st' \<and> tracked st' \<and>
         (\<forall>body. now \<ge> tokenExpirationTime st - 60000 \<and>
            (if truthy (SPOTIFY_REFRESH_TOKEN env)
             then api_refreshAccessToken rem (requests st)
             else api_clientCredentialsGrant rem (requests st)) = Inr body \<longrightarrow>
            realExpiry st' = now + expires_in body * 1000)"
  using assms
  by (auto simp: ensureAccessToken_def refreshTokenFlow_def clientCredentialsFlow_def issue_def
        realExpiry_def tracked_def Let_def split: sum.splits if_splits)

theorem ensureAccessToken_valid_for_60s_witness:
  "accessToken (snd (ensureAccessToken remote_mixed env_refresh 1000000 initial_state)) \<noteq> None \<and>
   1000000 + 60000 \<le> realExpiry (snd (ensureAccessToken remote_mixed env_refresh 1000000 initial_state)) \<and>
   realExpiry (snd (ensureAccessToken remote_mixed env_refresh 1000000 initial_state)) = 4600000 \<and>
   1000000 + 60000 \<le> realExpiry (snd (ensureAccessToken remote_short env_none 1000000 fresh_state))"
proof -
  have r: "ensureAccessToken remote_mixed env_refresh 1000000 initial_state =
             (Inr (), snd (ensureAccessToken remote_mixed env_refresh 1000000 initial_state))"
    by (simp add: ensureAccessToken_def refreshTokenFlow_def issue_def Let_def initial_state_def
          env_refresh_def truthy_def remote_mixed_def remote_ok_def)
  have t: "tracked initial_state" by (simp add: tracked_def initial_state_def)
  have g: "\<forall>body. 1000000 \<ge> tokenExpirationTime initial_state - 60000 \<and>
           (if truthy (SPOTIFY_REFRESH_TOKEN env_refresh)
            then api_refreshAccessToken remote_mixed (requests initial_state)
            else api_clientCredentialsGrant remote_mixed (requests initial_state)) = Inr body \<longrightarrow>
           60 \<le> expires_in body"
    by (simp add: env_refresh_def truthy_def remote_mixed_def remote_ok_def grant_3600_def)
  have b: "1000000 \<ge> tokenExpirationTime initial_state - 60000 \<and>
           (if truthy (SPOTIFY_REFRESH_TOKEN env_refresh)
            then api_refreshAccessToken remote_mixed (requests initial_state)
            else api_clientCredentialsGrant remote_mixed (requests initial_state)) = Inr grant_3600"
    by (simp add: env_refresh_def truthy_def remote_mixed_def remote_ok_def initial_state_def)
  have x: "expires_in grant_3600 = 3600" by (simp add: grant_3600_def)
  have r': "ensureAccessToken remote_short env_none 1000000 fresh_state =
             (Inr (), snd (ensureAccessToken remote_short env_none 1000000 fresh_state))"
    by (simp add: ensureAccessToken_def fresh_state_def)
  have t': "tracked fresh_state" by (simp add: tracked_def fresh_state_def)
  have g': "\<forall>body. 1000000 \<ge> tokenExpirationTime fresh_state - 60000 \<and>
           (if truthy (SPOTIFY_REFRESH_TOKEN env_none)
            then api_refreshAccessToken remote_short (requests fresh_state)
            else api_clientCredentialsGrant remote_short (requests fresh_state)) = Inr body \<longrightarrow>
           60 \<le> expires_in body"
    by (simp add: fresh_state_def)
  from ensureAccessToken_valid_for_60s [OF r _ t g] b x
  have one: "accessToken (snd (ensureAccessToken remote_mixed env_refresh 1000000 initial_state)) \<noteq> None \<and>
     1000000 + 60000 \<le> realExpiry (snd (ensureAccessToken remote_mixed env_refresh 1000000 initial_state)) \<and>
     realExpiry (snd (ensureAccessToken remote_mixed env_refresh 1000000 initial_state)) = 4600000"
    by simp
  from ensureAccessToken_valid_for_60s [OF r' _ t' g']
  have two: "1000000 + 60000 \<le> realExpiry (snd (ensureAccessToken remote_short env_none 1000000 fresh_state))"
    by simp
  from one two show ?thesis by blast
qed

section \<open>Identifiers and remote errors\<close>

text \<open>\<open>String(error)\<close> ends with the error's message, so it contains what the message contains.\<close>

lemma String_of_error_includes:
  assumes "js_includes (err_message e) t"
  shows "js_includes (String_of_error e) t"
proof -
  have "sublist t (err_message e)" using assms by (simp add: js_includes_def)
  moreover have "String_of_error e =
      (if err_name e = [] then [] else if err_message e = [] then err_name e
       else err_name e @ '': '') @ err_message e"
    by (simp add: String_of_error_def)
  then have "sublist (err_message e) (String_of_error e)"
    by (metis sublist_append_leftI)
  ultimately have "sublist t (String_of_error e)"
    by (rule sublist_order.order.trans)
  then show ?thesis by (simp add: js_includes_def)
qed

text \<open>
  C6. The normalization of playTrack and of playPlaylist is idempotent, and an input
  that already starts with the URI prefix of its resource type is returned unchanged.
\<close>

theorem uri_normalization_idempotent:
  "trackUri (trackUri s) = trackUri s \<and> playlistUri (playlistUri s) = playlistUri s \<and>
   (js_startsWith s ''spotify:track:'' \<longrightarrow> trackUri s = s) \<and>
   (js_startsWith s ''spotify:playlist:'' \<longrightarrow> playlistUri s = s)"
  by (simp add: trackUri_def playlistUri_def js_startsWith_def)

theorem uri_normalization_idempotent_witness:
  "js_startsWith ''spotify:track:abc123'' ''spotify:track:'' \<and>
   trackUri ''spotify:track:abc123'' = ''spotify:track:abc123'' \<and>
   js_startsWith ''spotify:playlist:abc123'' ''spotify:playlist:'' \<and>
   playlistUri ''spotify:playlist:abc123'' = ''spotify:playlist:abc123'' \<and>
   trackUri (trackUri ''abc123'') = trackUri ''abc123''"
proof -
  have a: "js_startsWith ''spotify:track:abc123'' ''spotify:track:''"
    by (simp add: js_startsWith_def)
  have b: "js_startsWith ''spotify:playlist:abc123'' ''spotify:playlist:''"
    by (simp add: js_startsWith_def)
  from uri_normalization_idempotent [of "''spotify:track:abc123''"]
       uri_normalization_idempotent [of "''spotify:playlist:abc123''"]
       uri_normalization_idempotent [of "''abc123''"] a b
  show ?thesis by blast
qed

text \<open>When the play request of playTrack fails, the catch block decides the result.\<close>

lemma playTrack_play_failed:
  assumes "fst (ensureAccessToken rem env now st) = Inr ()"
    and "api_play rem (requests (snd (ensureAccessToken rem env now st))) (Uris [trackUri trackId]) = Inl error"
  shows "fst (playTrack rem env now st trackId) = Inr (playTrack_catch error)"
  using assms by (auto simp: playTrack_def Let_def split: prod.splits sum.splits)

text \<open>
  C9, as stated, fails for an error whose message contains NO_ACTIVE_DEVICE after
  NOT_PREMIUM: the check for NOT_PREMIUM comes first, and playTrack returns the text
  about the Premium account.
\<close>

theorem playTrack_no_active_device_counterexample:
  "js_includes (err_message premium_and_device) ''NO_ACTIVE_DEVICE'' \<and>
   api_play (remote_play_fails premium_and_device) [] (Uris [''spotify:track:xyz'']) = Inl premium_and_device \<and>
   fst (playTrack (remote_play_fails premium_and_device) env_refresh 1000000 fresh_state ''xyz'') =
     Inr [Text (Plain ''Error: This functionality requires a Spotify Premium account.'')] \<and>
   fst (playTrack (remote_play_fails premium_and_device) env_refresh 1000000 fresh_state ''xyz'') \<noteq>
     Inr [Text (Plain ''Error: No active Spotify playback device found. Please open Spotify on a device first.'')]"
  by (simp add: playTrack_def playTrack_catch_def ensureAccessToken_def fresh_state_def
        remote_play_fails_def remote_ok_def premium_and_device_def trackUri_def js_startsWith_def
        js_includes_def String_of_error_def issue_def Let_def sublist_code)

text \<open>
  C9, amended. When the play request of playTrack fails with an error whose message
  contains NO_ACTIVE_DEVICE and whose text contains neither NOT_PREMIUM nor PERMISSION,
  playTrack returns, without throwing, exactly the text about the missing playback
  device.
\<close>

theorem playTrack_no_active_device:
  assumes "fst (ensureAccessToken rem env now st) = Inr ()"
    and "api_play rem (requests (snd (ensureAccessToken rem env now st))) (Uris [trackUri trackId]) = Inl error"
    and "js_includes (err_message error) ''NO_ACTIVE_DEVICE''"
    and "\<not> js_includes (String_of_error error) ''NOT_PREMIUM''"
    and "\<not> js_includes (String_of_error error) ''PERMISSION''"
  shows "fst (playTrack rem env now st trackId) =
           Inr [Text (Plain ''Error: No active Spotify playback device found. Please open Spotify on a device first.'')]"
proof -
  have "js_includes (String_of_error error) ''NO_ACTIVE_DEVICE''"
    using assms(3) by (rule String_of_error_includes)
  with assms(4,5) have "playTrack_catch error =
      [Text (Plain ''Error: No active Spotify playback device found. Please open Spotify on a device first.'')]"
    by (simp add: playTrack_catch_def Let_def)
  with playTrack_play_failed [OF assms(1,2)] show ?thesis by simp
qed

theorem playTrack_no_active_device_witness:
  "fst (playTrack (remote_play_fails device_only) env_refresh 1000000 fresh_state ''xyz'') =
     Inr [Text (Plain ''Error: No active Spotify playback device found. Please open Spotify on a device first.'')]"
proof -
  have e: "ensureAccessToken (remote_play_fails device_only) env_refresh 1000000 fresh_state = (Inr (), fresh_state)"
    by (simp add: ensureAccessToken_def fresh_state_def)
  have a: "fst (ensureAccessToken (remote_play_fails device_only) env_refresh 1000000 fresh_state) = Inr ()"
    by (simp add: e)
  have b: "api_play (remote_play_fails device_only)
             (requests (snd (ensureAccessToken (remote_play_fails device_only) env_refresh 1000000 fresh_state)))
             (Uris [trackUri ''xyz'']) = Inl device_only"
    by (simp add: remote_play_fails_def remote_ok_def)
  have c: "js_includes (err_message device_only) ''NO_ACTIVE_DEVICE''"
    by (simp add: js_includes_def device_only_def sublist_code)
  have d: "\<not> js_includes (String_of_error device_only) ''NOT_PREMIUM''"
    by (simp add: js_includes_def device_only_def String_of_error_def sublist_code)
  have f: "\<not> js_includes (String_of_error device_only) ''PERMISSION''"
    by (simp add: js_includes_def device_only_def String_of_error_def sublist_code)
  from playTrack_no_active_device [OF a b c d f] show ?thesis .
qed

section \<open>Requests of the playback operations\<close>

text \<open>ensureAccessToken only appends grant requests to the log.\<close>

lemma ensureAccessToken_requests:
  "\<exists>gs. requests (snd (ensureAccessToken rem env now st)) = requests st @ gs \<and>
        set gs \<subseteq> {Req_refreshAccessToken, Req_clientCredentialsGrant}"
  by (auto simp: ensureAccessToken_def refreshTokenFlow_def clientCredentialsFlow_def issue_def Let_def
           split: sum.splits)

lemma playTrack_requests:
  "requests (snd (playTrack rem env now st trackId)) =
     requests (snd (ensureAccessToken rem env now st)) @
       (if fst (ensureAccessToken rem env now st) = Inr () then [Req_play (Uris [trackUri trackId])] else [])"
  by (auto simp: playTrack_def issue_def Let_def split: prod.splits sum.splits)

text \<open>The catch blocks agree with the classification of the specification.\<close>

lemma playTrack_catch_spec:
  "playTrack_catch error = [Text (Plain (classification_spec ''Error playing track: '' error))]"
  by (simp add: playTrack_catch_def classification_spec_def known_errors_def js_includes_def Let_def)

lemma playPlaylist_catch_spec:
  "playPlaylist_catch error = [Text (Plain (classification_spec ''Error playing playlist: '' error))]"
  by (simp add: playPlaylist_catch_def classification_spec_def known_errors_def js_includes_def Let_def)

lemma classification_spec_not_success:
  "\<not> prefix ''Now playing playlist'' (classification_spec ''Error playing playlist: '' error)"
  by (simp add: classification_spec_def known_errors_def split: option.splits)

text \<open>The requests of the try block of playPlaylist, and its result.\<close>

lemma playPlaylist_try_requests:
  "\<exists>rs. requests (snd (playPlaylist_try rem st1 playlistId shuffle)) = requests st1 @ rs \<and>
        (\<forall>opts. Req_play opts \<in> set rs \<longrightarrow> opts = Context_uri (playlistUri playlistId)) \<and>
        (\<forall>result. fst (playPlaylist_try rem st1 playlistId shuffle) = Inr result \<longrightarrow>
           rs = Req_getPlaylist playlistId
                # (case shuffle of None \<Rightarrow> [] | Some b \<Rightarrow> [Req_setShuffle b])
                @ [Req_play (Context_uri (playlistUri playlistId))])"
  by (auto simp: playPlaylist_try_def issue_def Let_def split: sum.splits option.splits)

lemma playPlaylist_result:
  assumes "fst (ensureAccessToken rem env now st) = Inr ()"
  shows "fst (playPlaylist rem env now st playlistId shuffle) =
     (case fst (playPlaylist_try rem (snd (ensureAccessToken rem env now st)) playlistId
                  (Some (case shuffle of None \<Rightarrow> False | Some b \<Rightarrow> b))) of
        Inr result \<Rightarrow> Inr result
      | Inl error \<Rightarrow> Inr (playPlaylist_catch error))"
  using assms by (auto simp: playPlaylist_def Let_def split: prod.splits sum.splits option.splits)

lemma playPlaylist_state:
  assumes "fst (ensureAccessToken rem env now st) = Inr ()"
  shows "snd (playPlaylist rem env now st playlistId shuffle) =
     snd (playPlaylist_try rem (snd (ensureAccessToken rem env now st)) playlistId
            (Some (case shuffle of None \<Rightarrow> False | Some b \<Rightarrow> b)))"
  using assms by (auto simp: playPlaylist_def Let_def split: prod.splits sum.splits option.splits)

lemma playPlaylist_success_aux:
  assumes "fst (playPlaylist rem env now st playlistId shuffle) = Inr [Text (Plain t)]"
    and "prefix ''Now playing playlist'' t"
  shows "fst (ensureAccessToken rem env now st) = Inr () \<and>
         requests (snd (playPlaylist rem env now st playlistId shuffle)) =
           requests (snd (ensureAccessToken rem env now st)) @
             [Req_getPlaylist playlistId,
              Req_setShuffle (case shuffle of None \<Rightarrow> False | Some b \<Rightarrow> b),
              Req_play (Context_uri (playlistUri playlistId))]"
proof -
  let ?e = "ensureAccessToken rem env now st"
  let ?sh = "Some (case shuffle of None \<Rightarrow> False | Some b \<Rightarrow> b)"
  let ?body = "playPlaylist_try rem (snd ?e) playlistId ?sh"
  have ok: "fst ?e = Inr ()"
    using assms(1) by (auto simp: playPlaylist_def Let_def split: prod.splits sum.splits)
  note u = playPlaylist_result [OF ok, of playlistId shuffle]
  have "\<exists>result. fst ?body = Inr result"
  proof (cases "fst ?body")
    case (Inl error)
    then have "fst (playPlaylist rem env now st playlistId shuffle) = Inr (playPlaylist_catch error)"
      by (simp add: u)
    with assms show ?thesis
      using classification_spec_not_success [of error] by (simp add: playPlaylist_catch_spec)
  next
    case (Inr result)
    then show ?thesis by blast
  qed
  then obtain result where r: "fst ?body = Inr result" by blast
  have s: "snd (playPlaylist rem env now st playlistId shuffle) = snd ?body"
    by (rule playPlaylist_state [OF ok])
  from playPlaylist_try_requests [of rem "snd ?e" playlistId ?sh] r
  have "requests (snd ?body) = requests (snd ?e) @
          [Req_getPlaylist playlistId,
           Req_setShuffle (case shuffle of None \<Rightarrow> False | Some b \<Rightarrow> b),
           Req_play (Context_uri (playlistUri playlistId))]"
    by auto
  with ok s show ?thesis by simp
qed

text \<open>
  C5, as stated, fails for a bare id given to getPlaylistTracks: both of its requests
  carry the id \<open>abc\<close> as given, not the URI \<open>spotify:playlist:abc\<close>.
\<close>

theorem getPlaylistTracks_bare_id_counterexample:
  "sent fresh_state (snd (getPlaylistTracks remote_ok env_refresh 1000000 fresh_state ''abc'' None)) =
     [Req_getPlaylist ''abc'', Req_getPlaylistTracks ''abc'' 50] \<and>
   playlistUri ''abc'' = ''spotify:playlist:abc'' \<and> ''abc'' \<noteq> playlistUri ''abc''"
  by (simp add: getPlaylistTracks_def ensureAccessToken_def fresh_state_def remote_ok_def issue_def
        sent_def playlistUri_def js_startsWith_def Let_def)

text \<open>
  C5, amended. For playTrack and playPlaylist and every argument, bare id or URI, each
  play request that the operation sends carries the argument normalized to the URI form:
  playTrack sends it once the token is ensured, and a successful playPlaylist has sent it.
\<close>

theorem play_request_carries_uri:
  "(\<forall>opts. Req_play opts \<in> set (sent st (snd (playTrack rem env now st trackId))) \<longrightarrow>
       opts = Uris [trackUri trackId]) \<and>
   (fst (ensureAccessToken rem env now st) = Inr () \<longrightarrow>
       Req_play (Uris [trackUri trackId]) \<in> set (sent st (snd (playTrack rem env now st trackId)))) \<and>
   (\<forall>opts. Req_play opts \<in> set (sent st (snd (playPlaylist rem env now st playlistId shuffle))) \<longrightarrow>
       opts = Context_uri (playlistUri playlistId)) \<and>
   ((\<exists>t. fst (playPlaylist rem env now st playlistId shuffle) = Inr [Text (Plain t)] \<and>
         prefix ''Now playing playlist'' t) \<longrightarrow>
       Req_play (Context_uri (playlistUri playlistId))
         \<in> set (sent st (snd (playPlaylist rem env now st playlistId shuffle))))"
proof -
  let ?e = "ensureAccessToken rem env now st"
  obtain gs where gs: "requests (snd ?e) = requests st @ gs"
    "set gs \<subseteq> {Req_refreshAccessToken, Req_clientCredentialsGrant}"
    using ensureAccessToken_requests [of rem env now st] by blast
  have track: "sent st (snd (playTrack rem env now st trackId)) =
      gs @ (if fst ?e = Inr () then [Req_play (Uris [trackUri trackId])] else [])"
    by (simp add: sent_def playTrack_requests gs(1))
  have a: "\<forall>opts. Req_play opts \<in> set (sent st (snd (playTrack rem env now st trackId))) \<longrightarrow>
      opts = Uris [trackUri trackId]"
    using gs(2) by (auto simp: track)
  have b: "fst ?e = Inr () \<longrightarrow>
      Req_play (Uris [trackUri trackId]) \<in> set (sent st (snd (playTrack rem env now st trackId)))"
    by (simp add: track)
  have c: "\<forall>opts. Req_play opts \<in> set (sent st (snd (playPlaylist rem env now st playlistId shuffle))) \<longrightarrow>
      opts = Context_uri (playlistUri playlistId)"
  proof (cases "fst ?e")
    case (Inl e)
    then have "snd (playPlaylist rem env now st playlistId shuffle) = snd ?e"
      by (auto simp: playPlaylist_def Let_def split: prod.splits sum.splits)
    then show ?thesis using gs by (auto simp: sent_def)
  next
    case (Inr u)
    then have ok: "fst ?e = Inr ()" by simp
    obtain rs where rs:
      "requests (snd (playPlaylist rem env now st playlistId shuffle)) = requests (snd ?e) @ rs"
      "\<forall>opts. Req_play opts \<in> set rs \<longrightarrow> opts = Context_uri (playlistUri playlistId)"
      using playPlaylist_try_requests
              [of rem "snd ?e" playlistId "Some (case shuffle of None \<Rightarrow> False | Some b \<Rightarrow> b)"]
      by (auto simp: playPlaylist_state [OF ok])
    have "sent st (snd (playPlaylist rem env now st playlistId shuffle)) = gs @ rs"
      by (simp add: sent_def rs(1) gs(1))
    then show ?thesis using gs(2) rs(2) by auto
  qed
  have d: "(\<exists>t. fst (playPlaylist rem env now st playlistId shuffle) = Inr [Text (Plain t)] \<and>
         prefix ''Now playing playlist'' t) \<longrightarrow>
       Req_play (Context_uri (playlistUri playlistId))
         \<in> set (sent st (snd (playPlaylist rem env now st playlistId shuffle)))"
  proof
    assume "\<exists>t. fst (playPlaylist rem env now st playlistId shuffle) = Inr [Text (Plain t)] \<and>
         prefix ''Now playing playlist'' t"
    then obtain t where t: "fst (playPlaylist rem env now st playlistId shuffle) = Inr [Text (Plain t)]"
      "prefix ''Now playing playlist'' t" by blast
    from playPlaylist_success_aux [OF t]
    show "Req_play (Context_uri (playlistUri playlistId))
         \<in> set (sent st (snd (playPlaylist rem env now st playlistId shuffle)))"
      by (simp add: sent_def gs(1))
  qed
  from a b c d show ?thesis by blast
qed

theorem play_request_carries_uri_witness:
  "Req_play (Uris [''spotify:track:xyz''])
     \<in> set (sent fresh_state (snd (playTrack remote_ok env_refresh 1000000 fresh_state ''xyz''))) \<and>
   Req_play (Context_uri ''spotify:playlist:abc'')
     \<in> set (sent fresh_state (snd (playPlaylist remote_ok env_refresh 1000000 fresh_state ''abc'' None)))"
proof -
  have e: "fst (ensureAccessToken remote_ok env_refresh 1000000 fresh_state) = Inr ()"
    by (simp add: ensureAccessToken_def fresh_state_def)
  have p: "\<exists>t. fst (playPlaylist remote_ok env_refresh 1000000 fresh_state ''abc'' None) = Inr [Text (Plain t)] \<and>
         prefix ''Now playing playlist'' t"
    by (simp add: playPlaylist_def playPlaylist_try_def ensureAccessToken_def fresh_state_def
          remote_ok_def issue_def Let_def)
  have u: "trackUri ''xyz'' = ''spotify:track:xyz''" "playlistUri ''abc'' = ''spotify:playlist:abc''"
    by (simp_all add: trackUri_def playlistUri_def js_startsWith_def)
  from play_request_carries_uri
         [where rem = remote_ok and env = env_refresh and now = 1000000 and st = fresh_state
            and trackId = "''xyz''" and playlistId = "''abc''" and shuffle = None]
       e p
  show ?thesis unfolding u by blast
qed

text \<open>
  C8, as stated, fails: a successful playPlaylist sends three requests, the shuffle request
  between the metadata fetch and the play request, also when no shuffle value is given.
\<close>

theorem playPlaylist_three_requests_counterexample:
  "playPlaylist remote_ok env_refresh 1000000 fresh_state ''abc'' None =
     (Inr [Text (Plain (''Now playing playlist '' @ quote @ ''Summer Roadtrip'' @ quote @ '' in order.''))],
      fresh_state\<lparr>requests :=
        [Req_getPlaylist ''abc'', Req_setShuffle False, Req_play (Context_uri ''spotify:playlist:abc'')]\<rparr>)
   \<and> length (sent fresh_state (snd (playPlaylist remote_ok env_refresh 1000000 fresh_state ''abc'' None))) = 3"
  by (simp add: playPlaylist_def playPlaylist_try_def ensureAccessToken_def fresh_state_def
        remote_ok_def issue_def sent_def playlistUri_def js_startsWith_def Let_def)

text \<open>
  C8, amended. For every successful invocation of playPlaylist, after the token check
  (which may send one grant request) exactly three requests are sent to the remote
  service, in this order: the playlist-metadata fetch, the shuffle request with the given
  value (false when none is given), and the play request.
\<close>

theorem playPlaylist_success_requests:
  assumes "fst (playPlaylist rem env now st playlistId shuffle) = Inr [Text (Plain t)]"
    and "prefix ''Now playing playlist'' t"
  shows "requests (snd (playPlaylist rem env now st playlistId shuffle)) =
           requests (snd (ensureAccessToken rem env now st)) @
             [Req_getPlaylist playlistId,
              Req_setShuffle (case shuffle of None \<Rightarrow> False | Some b \<Rightarrow> b),
              Req_play (Context_uri (playlistUri playlistId))]"
  using playPlaylist_success_aux [OF assms] by simp

theorem playPlaylist_success_requests_witness:
  "requests (snd (playPlaylist remote_ok env_none 1000000 initial_state ''abc'' (Some True))) =
     [Req_clientCredentialsGrant, Req_getPlaylist ''abc'', Req_setShuffle True,
      Req_play (Context_uri ''spotify:playlist:abc'')]"
proof -
  have e: "ensureAccessToken remote_ok env_none 1000000 initial_state =
      (Inr (), \<lparr>tokenExpirationTime = 4540000, accessToken = Some ''tok'',
                requests = [Req_clientCredentialsGrant]\<rparr>)"
    by (simp add: ensureAccessToken_def clientCredentialsFlow_def initial_state_def env_none_def
          truthy_def remote_ok_def grant_3600_def issue_def Let_def)
  have p: "fst (playPlaylist remote_ok env_none 1000000 initial_state ''abc'' (Some True)) =
      Inr [Text (Plain (''Now playing playlist '' @ quote @ ''Summer Roadtrip'' @ quote @ '' on shuffle mode.''))]"
    unfolding playPlaylist_def e
    by (simp add: playPlaylist_try_def remote_ok_def issue_def Let_def)
  have q: "prefix ''Now playing playlist'' (''Now playing playlist '' @ quote @ ''Summer Roadtrip'' @ quote @ '' on shuffle mode.'')"
    by simp
  from playPlaylist_success_requests [OF p q] show ?thesis
    by (simp add: e playlistUri_def js_startsWith_def)
qed

text \<open>
  C10. In playTrack and in playPlaylist a remote error is classified by the substrings
  NOT_PREMIUM, PERMISSION, NO_ACTIVE_DEVICE in this order of precedence: the text
  returned is the message of the first of them that the error text contains, and for an
  error text that contains none of them it is the generic text followed by the raw error.
\<close>

theorem remote_error_classification:
  assumes "fst (ensureAccessToken rem env now st) = Inr ()"
  shows "(api_play rem (requests (snd (ensureAccessToken rem env now st))) (Uris [trackUri trackId]) = Inl error \<longrightarrow>
            fst (playTrack rem env now st trackId) =
              Inr [Text (Plain (classification_spec ''Error playing track: '' error))]) \<and>
         (fst (playPlaylist_try rem (snd (ensureAccessToken rem env now st)) playlistId
                 (Some (case shuffle of None \<Rightarrow> False | Some b \<Rightarrow> b))) = Inl error \<longrightarrow>
            fst (playPlaylist rem env now st playlistId shuffle) =
              Inr [Text (Plain (classification_spec ''Error playing playlist: '' error))])"
  using playTrack_play_failed [OF assms, of trackId error]
  by (auto simp: playTrack_catch_spec playPlaylist_catch_spec playPlaylist_result [OF assms])

theorem remote_error_classification_witness:
  "fst (playTrack (remote_play_fails permission_and_device) env_refresh 1000000 fresh_state ''xyz'') =
     Inr [Text (Plain ''Error: Missing required permissions. Make sure your refresh token has the user-modify-playback-state scope.'')] \<and>
   fst (playPlaylist (remote_play_fails timeout_error) env_refresh 1000000 fresh_state ''abc'' None) =
     Inr [Text (Plain ''Error playing playlist: Error: timeout'')]"
proof -
  have e: "\<And>r. ensureAccessToken r env_refresh 1000000 fresh_state = (Inr (), fresh_state)"
    by (simp add: ensureAccessToken_def fresh_state_def)
  have a: "\<And>r. fst (ensureAccessToken r env_refresh 1000000 fresh_state) = Inr ()"
    by (simp add: e)
  have b: "api_play (remote_play_fails permission_and_device)
             (requests (snd (ensureAccessToken (remote_play_fails permission_and_device) env_refresh 1000000 fresh_state)))
             (Uris [trackUri ''xyz'']) = Inl permission_and_device"
    by (simp add: remote_play_fails_def remote_ok_def)
  have c: "fst (playPlaylist_try (remote_play_fails timeout_error)
                 (snd (ensureAccessToken (remote_play_fails timeout_error) env_refresh 1000000 fresh_state))
                 ''abc'' (Some (case None of None \<Rightarrow> False | Some b \<Rightarrow> b))) = Inl timeout_error"
    by (simp add: e playPlaylist_try_def remote_play_fails_def remote_ok_def issue_def Let_def)
  have d: "classification_spec ''Error playing track: '' permission_and_device =
      ''Error: Missing required permissions. Make sure your refresh token has the user-modify-playback-state scope.''"
    by (simp add: classification_spec_def known_errors_def permission_and_device_def
          String_of_error_def sublist_code)
  have f: "classification_spec ''Error playing playlist: '' timeout_error =
      ''Error playing playlist: Error: timeout''"
    by (simp add: classification_spec_def known_errors_def timeout_error_def
          String_of_error_def sublist_code)
  from remote_error_classification
         [OF a, where rem = "remote_play_fails permission_and_device" and trackId = "''xyz''"
            and error = permission_and_device]
       remote_error_classification
         [OF a, where rem = "remote_play_fails timeout_error" and playlistId = "''abc''"
            and shuffle = None and error = timeout_error]
       b c
  show ?thesis by (simp add: d f)
qed

section \<open>Properties of the two-step tools\<close>













end
